theory Spec2Isabelle
  imports Main "HOL-Library.Char_ord" "HOL-Library.List_Lexorder"
begin

section \<open>Text\<close>

text \<open>
  A Python \<open>str\<close> is modelled as a \<open>string\<close> in which every \<open>char\<close> stands for
  one code point of the Latin-1 range (0 to 255), so \<open>length\<close> counts characters as
  \<open>len\<close> does and the accented letters of the French labels are single characters
  (\<open>CHR 0xE9\<close> is e-acute, \<open>CHR 0xC9\<close> is E-acute). Text with code points above 255
  is outside the model.
\<close>

text \<open>
  \<open>str.lower\<close> on the Latin-1 range: the capital letters are A to Z and the accented
  capitals 0xC0 to 0xDE without the multiplication sign 0xD7; each has its small letter
  32 places further.
\<close>

definition is_upper :: "char \<Rightarrow> bool" where
  "is_upper c =
     (let n = (of_char c :: nat)
      in (65 \<le> n \<and> n \<le> 90) \<or> (192 \<le> n \<and> n \<le> 222 \<and> n \<noteq> 215))"

definition lower_char :: "char \<Rightarrow> char" where
  "lower_char c = (if is_upper c then char_of ((of_char c :: nat) + 32) else c)"

definition lower :: "string \<Rightarrow> string" where
  "lower s = map lower_char s"

text \<open>The substring test \<open>p in s\<close> of Python.\<close>

fun occurs_in :: "string \<Rightarrow> string \<Rightarrow> bool" where
  "occurs_in p [] = (p = [])"
| "occurs_in p (c # cs) = (take (length p) (c # cs) = p \<or> occurs_in p cs)"

section \<open>Dictionaries\<close>

text \<open>
  A \<open>dict\<close> with string keys is the list of its items in insertion order (the order
  \<open>keys()\<close> and \<open>items()\<close> yield); \<open>map_of\<close> is the lookup.
\<close>

type_synonym 'v dict = "(string \<times> 'v) list"

text \<open>\<open>d.get(k, '')\<close> on a dictionary of texts.\<close>

definition get_text :: "string dict \<Rightarrow> string \<Rightarrow> string" where
  "get_text d k = (case map_of d k of None \<Rightarrow> [] | Some v \<Rightarrow> v)"

section \<open>The alert classifier (\<open>calculate_alert_level\<close> of app.py)\<close>

text \<open>The three localized labels and the field names of an observation.\<close>

definition eleve :: string where
  "eleve = CHR 0xC9 # ''lev'' @ [CHR 0xE9]"

definition moyen :: string where
  "moyen = ''Moyen''"

definition faible :: string where
  "faible = ''Faible''"

definition situation_generale :: string where
  "situation_generale = ''Situation g'' @ [CHR 0xE9] @ ''n'' @ [CHR 0xE9] @ ''rale''"

definition activites_economiques :: string where
  "activites_economiques = ''Activit'' @ [CHR 0xE9] @ ''s '' @ [CHR 0xE9] @ ''conomiques''"

definition couvre_feu_key :: string where
  "couvre_feu_key = ''Couvre-feu''"

definition ferme :: string where
  "ferme = ''ferm'' @ [CHR 0xE9]"

text \<open>
  The display marker returned with a level: the coloured circle (an emoji in the source)
  and the colour code.
\<close>

datatype icon = RedCircle | YellowCircle | GreenCircle

type_synonym alert = "string \<times> icon \<times> string"

definition alert_eleve :: alert where
  "alert_eleve = (eleve, RedCircle, ''#d32f2f'')"

definition alert_moyen :: alert where
  "alert_moyen = (moyen, YellowCircle, ''#f57c00'')"

definition alert_faible :: alert where
  "alert_faible = (faible, GreenCircle, ''#388e3c'')"

text \<open>
  The entry of the override table \<open>risk_data\<close> (the content of risque.json, a global of
  the source) that the classifier reads: the guard of the first \<open>if\<close>, which needs a
  non-empty date and a non-empty region name before it looks anything up.
\<close>

definition override_entry :: "string dict dict \<Rightarrow> string \<Rightarrow> string \<Rightarrow> string option" where
  "override_entry risk_data region_name date_str =
     (if date_str \<noteq> [] \<and> region_name \<noteq> [] then
        (case map_of risk_data date_str of
           None \<Rightarrow> None
         | Some regions \<Rightarrow> map_of regions region_name)
      else None)"

text \<open>The three blocks that add to \<open>score\<close>, each on the lowered text of its field.\<close>

definition situation_score :: "string \<Rightarrow> int" where
  "situation_score situation =
     (if occurs_in ''tendu'' situation \<or> occurs_in ''pillage'' situation then 3
      else if occurs_in ''ghost town'' situation then 4
      else if occurs_in ''ras'' situation \<or> occurs_in ''calme'' situation then 0
      else 1)"

definition activites_score :: "string \<Rightarrow> int" where
  "activites_score activites =
     (if occurs_in ferme activites \<or> occurs_in ''ralenti'' activites
         \<or> occurs_in ''vide'' activites then 2
      else if occurs_in ''variable'' activites then 1
      else 0)"

definition couvre_feu_score :: "string \<Rightarrow> int" where
  "couvre_feu_score couvre_feu =
     (if occurs_in ''interdiction'' couvre_feu \<or> occurs_in ''ghost town'' couvre_feu then 2
      else 0)"

definition heuristic_score :: "string dict \<Rightarrow> int" where
  "heuristic_score region_data =
     (let situation = lower (get_text region_data situation_generale);
          activites = lower (get_text region_data activites_economiques);
          couvre_feu = lower (get_text region_data couvre_feu_key)
      in 0 + situation_score situation + activites_score activites
           + couvre_feu_score couvre_feu)"

definition level_of_score :: "int \<Rightarrow> alert" where
  "level_of_score score =
     (if score \<ge> 5 then alert_eleve
      else if score \<ge> 2 then alert_moyen
      else alert_faible)"

definition calculate_alert_level ::
  "string dict dict \<Rightarrow> string dict \<Rightarrow> string \<Rightarrow> string \<Rightarrow> alert" where
  "calculate_alert_level risk_data region_data region_name date_str =
     (case override_entry risk_data region_name date_str of
        Some level_fr \<Rightarrow>
          if level_fr = eleve then alert_eleve
          else if level_fr = moyen then alert_moyen
          else if level_fr = faible then alert_faible
          else level_of_score (heuristic_score region_data)
      | None \<Rightarrow> level_of_score (heuristic_score region_data))"

section \<open>The statistics table and its filter (app.py)\<close>

text \<open>A row of \<open>df_stats\<close>; \<open>info.get(field, 'N/A')\<close> fills a missing field.\<close>

record stat_row =
  row_region :: string
  row_niveau :: string
  row_icone :: icon
  row_situation :: string
  row_activites :: string
  row_circulation :: string
  row_couvre_feu :: string

definition get_na :: "string dict \<Rightarrow> string \<Rightarrow> string" where
  "get_na d k = (case map_of d k of None \<Rightarrow> ''N/A'' | Some v \<Rightarrow> v)"

definition create_statistics_dataframe ::
  "string dict dict \<Rightarrow> string dict dict \<Rightarrow> string \<Rightarrow> stat_row list" where
  "create_statistics_dataframe risk_data data date_str =
     map (\<lambda>(region_name, info).
            (case calculate_alert_level risk_data info region_name date_str of
               (level, icon, color) \<Rightarrow>
                 \<lparr>row_region = region_name, row_niveau = level, row_icone = icon,
                  row_situation = get_na info situation_generale,
                  row_activites = get_na info activites_economiques,
                  row_circulation = get_na info ''Circulation'',
                  row_couvre_feu = get_na info couvre_feu_key\<rparr>))
         data"

text \<open>
  \<open>filtered_df\<close>: the rows whose region \<open>isin(selected_regions)\<close>, then one level
  removed for each unchecked box.
\<close>

definition filtered_df ::
  "stat_row list \<Rightarrow> string list \<Rightarrow> bool \<Rightarrow> bool \<Rightarrow> bool \<Rightarrow> stat_row list" where
  "filtered_df df_stats selected_regions show_high show_medium show_low =
     (let f0 = filter (\<lambda>r. row_region r \<in> set selected_regions) df_stats;
          f1 = (if \<not> show_high then filter (\<lambda>r. row_niveau r \<noteq> eleve) f0 else f0);
          f2 = (if \<not> show_medium then filter (\<lambda>r. row_niveau r \<noteq> moyen) f1 else f1);
          f3 = (if \<not> show_low then filter (\<lambda>r. row_niveau r \<noteq> faible) f2 else f2)
      in f3)"

section \<open>Loading the security snapshots (\<open>load_security_data_by_date\<close> of app.py)\<close>

text \<open>
  A parsed JSON value. An object is the list of its members in file order, which is the
  order of the keys of the \<open>dict\<close> that \<open>json.load\<close> builds. Of a number only its
  being zero matters here, so an integer stands for it.
\<close>

datatype json =
    JNull
  | JBool bool
  | JNum int
  | JStr string
  | JArr "json list"
  | JObj "(string \<times> json) list"

datatype error = FileNotFoundError | JSONDecodeError | AttributeError | ValueError | TypeError

text \<open>
  What \<open>open\<close> followed by \<open>json.load\<close> meets: no file, a file that is not JSON, or a
  file that parses to a value.
\<close>

datatype file_read = FileNotFound | Malformed | Parsed json

definition read_json :: "file_read \<Rightarrow> error + json" where
  "read_json file =
     (case file of
        FileNotFound \<Rightarrow> Inl FileNotFoundError
      | Malformed \<Rightarrow> Inl JSONDecodeError
      | Parsed data \<Rightarrow> Inr data)"

text \<open>The truth value Python gives a parsed value in \<open>if data\<close>.\<close>

fun truthy :: "json \<Rightarrow> bool" where
  "truthy JNull = False"
| "truthy (JBool b) = b"
| "truthy (JNum n) = (n \<noteq> 0)"
| "truthy (JStr s) = (s \<noteq> [])"
| "truthy (JArr xs) = (xs \<noteq> [])"
| "truthy (JObj kvs) = (kvs \<noteq> [])"

text \<open>
  \<open>list(data.keys())[0] if data else ""\<close>: only a \<open>dict\<close> has \<open>keys\<close>, and the
  conditional expression looks at \<open>data\<close> first.
\<close>

fun first_key_of :: "json \<Rightarrow> error + string" where
  "first_key_of (JObj kvs) = (case kvs of [] \<Rightarrow> Inr [] | (k, v) # rest \<Rightarrow> Inr k)"
| "first_key_of data = (if truthy data then Inl AttributeError else Inr [])"

definition looks_like_date :: "string \<Rightarrow> bool" where
  "looks_like_date first_key =
     (first_key \<noteq> [] \<and> length first_key = 10 \<and> first_key ! 4 = CHR ''-''
      \<and> first_key ! 7 = CHR ''-'')"

text \<open>The members of a value that is returned as the dataset.\<close>

fun members :: "json \<Rightarrow> json dict" where
  "members (JObj kvs) = kvs"
| "members data = []"

text \<open>
  The body of the \<open>try\<close>, with \<open>today\<close> for \<open>datetime.now().strftime("%Y-%m-%d")\<close>.
  The first branch is reached with a \<open>dict\<close> only, since its first key is not empty.
\<close>

definition load_security_body :: "file_read \<Rightarrow> string \<Rightarrow> error + json dict" where
  "load_security_body file today =
     (case read_json file of
        Inl e \<Rightarrow> Inl e
      | Inr data \<Rightarrow>
          (case first_key_of data of
             Inl e \<Rightarrow> Inl e
           | Inr first_key \<Rightarrow>
               if looks_like_date first_key then Inr (members data)
               else Inr [(today, data)]))"

text \<open>The \<open>try\<close> with its one handler, \<open>except FileNotFoundError\<close>.\<close>

definition load_security_data_by_date :: "file_read \<Rightarrow> string \<Rightarrow> error + json dict" where
  "load_security_data_by_date file today =
     (case load_security_body file today of
        Inl FileNotFoundError \<Rightarrow> Inr []
      | Inl e \<Rightarrow> Inl e
      | Inr data \<Rightarrow> Inr data)"

section \<open>Banking data (\<open>load_banking_data\<close> of the banking page)\<close>

text \<open>
  The characters \<open>str.strip\<close> removes on the Latin-1 range: tab to carriage return, the
  four separators 0x1C to 0x1F, the space, next-line 0x85 and the no-break space 0xA0.
\<close>

definition is_space :: "char \<Rightarrow> bool" where
  "is_space c =
     (let n = (of_char c :: nat)
      in (9 \<le> n \<and> n \<le> 13) \<or> (28 \<le> n \<and> n \<le> 32) \<or> n = 133 \<or> n = 160)"

definition strip :: "string \<Rightarrow> string" where
  "strip s = rev (dropWhile is_space (rev (dropWhile is_space s)))"

text \<open>\<open>.map({'oui': 'Oui', 'non': 'Non'})\<close>: a value that is no key becomes missing.\<close>

definition ouvert_map :: "string \<Rightarrow> string option" where
  "ouvert_map s =
     (if s = ''oui'' then Some ''Oui'' else if s = ''non'' then Some ''Non'' else None)"

text \<open>
  One cell of the column \<open>Ouvert\<close> through \<open>.str.strip().str.lower().map(...)\<close>;
  \<open>None\<close> is a missing cell, which every step hands on.
\<close>

definition normalize_ouvert :: "string option \<Rightarrow> string option" where
  "normalize_ouvert cell =
     (case cell of None \<Rightarrow> None | Some s \<Rightarrow> ouvert_map (lower (strip s)))"

definition clean_ouvert :: "string option list \<Rightarrow> string option list" where
  "clean_ouvert column = map normalize_ouvert column"

section \<open>Calendar dates (\<open>datetime.strptime\<close> and \<open>strftime\<close>)\<close>

datatype date = Date (year: nat) (month: nat) (day: nat)

definition is_digit :: "char \<Rightarrow> bool" where
  "is_digit c = (let n = (of_char c :: nat) in 48 \<le> n \<and> n \<le> 57)"

definition digit_val :: "char \<Rightarrow> nat" where
  "digit_val c = of_char c - 48"

definition is_leap :: "nat \<Rightarrow> bool" where
  "is_leap y = (y mod 4 = 0 \<and> (y mod 100 \<noteq> 0 \<or> y mod 400 = 0))"

definition days_in_month :: "nat \<Rightarrow> nat \<Rightarrow> nat" where
  "days_in_month y m =
     (if m = 2 then (if is_leap y then 29 else 28)
      else if m = 4 \<or> m = 6 \<or> m = 9 \<or> m = 11 then 30
      else 31)"

text \<open>The dates \<open>datetime\<close> accepts: years 1 to 9999, a month, a day of that month.\<close>

definition valid_date :: "date \<Rightarrow> bool" where
  "valid_date dt =
     (1 \<le> year dt \<and> year dt \<le> 9999 \<and> 1 \<le> month dt \<and> month dt \<le> 12
      \<and> 1 \<le> day dt \<and> day dt \<le> days_in_month (year dt) (month dt))"

text \<open>
  The month of the format \<open>%m\<close> is read by the pattern \<open>1[0-2]|0[1-9]|[1-9]\<close> and the
  hyphen of the format follows it: two digits before a hyphen, or else one.
\<close>

fun parse_month :: "string \<Rightarrow> (nat \<times> string) option" where
  "parse_month (a # b # c # rest) =
     (if c = CHR ''-'' \<and> ((a = CHR ''1'' \<and> b \<in> {CHR ''0'', CHR ''1'', CHR ''2''})
                          \<or> (a = CHR ''0'' \<and> is_digit b \<and> b \<noteq> CHR ''0''))
      then Some (10 * digit_val a + digit_val b, rest)
      else if b = CHR ''-'' \<and> is_digit a \<and> a \<noteq> CHR ''0''
      then Some (digit_val a, c # rest)
      else None)"
| "parse_month [a, b] =
     (if b = CHR ''-'' \<and> is_digit a \<and> a \<noteq> CHR ''0'' then Some (digit_val a, []) else None)"
| "parse_month s = None"

text \<open>
  The day of \<open>%d\<close> is read by \<open>3[0-1]|[1-2]\d|0[1-9]|[1-9]| [1-9]\<close>, the first
  alternative that matches; what it leaves unread must be empty.
\<close>

fun parse_day :: "string \<Rightarrow> (nat \<times> string) option" where
  "parse_day [] = None"
| "parse_day [a] = (if is_digit a \<and> a \<noteq> CHR ''0'' then Some (digit_val a, []) else None)"
| "parse_day (a # b # rest) =
     (if a = CHR ''3'' \<and> (b = CHR ''0'' \<or> b = CHR ''1'') then Some (30 + digit_val b, rest)
      else if (a = CHR ''1'' \<or> a = CHR ''2'') \<and> is_digit b
      then Some (10 * digit_val a + digit_val b, rest)
      else if a = CHR ''0'' \<and> is_digit b \<and> b \<noteq> CHR ''0'' then Some (digit_val b, rest)
      else if is_digit a \<and> a \<noteq> CHR ''0'' then Some (digit_val a, b # rest)
      else if a = CHR '' '' \<and> is_digit b \<and> b \<noteq> CHR ''0'' then Some (digit_val b, rest)
      else None)"

text \<open>
  \<open>datetime.strptime(s, "%Y-%m-%d")\<close>: four digits, a hyphen, the month, a hyphen, the
  day, nothing more, and a date that exists; \<open>ValueError\<close> otherwise.
\<close>

fun strptime :: "string \<Rightarrow> error + date" where
  "strptime (y1 # y2 # y3 # y4 # h # rest) =
     (if is_digit y1 \<and> is_digit y2 \<and> is_digit y3 \<and> is_digit y4 \<and> h = CHR ''-'' then
        (case parse_month rest of
           None \<Rightarrow> Inl ValueError
         | Some (m, rest') \<Rightarrow>
             (case parse_day rest' of
                None \<Rightarrow> Inl ValueError
              | Some (d, rest'') \<Rightarrow>
                  (let dt = Date (1000 * digit_val y1 + 100 * digit_val y2
                                  + 10 * digit_val y3 + digit_val y4) m d
                   in if rest'' = [] \<and> valid_date dt then Inr dt else Inl ValueError)))
      else Inl ValueError)"
| "strptime s = Inl ValueError"

text \<open>The day number of a date (\<open>toordinal\<close>): day 1 is 1 January of year 1.\<close>

definition days_before_year :: "nat \<Rightarrow> int" where
  "days_before_year y =
     (let n = int y - 1 in n * 365 + n div 4 - n div 100 + n div 400)"

definition days_before_month :: "nat \<Rightarrow> nat \<Rightarrow> int" where
  "days_before_month y m = (\<Sum>k \<leftarrow> [1..<m]. int (days_in_month y k))"

definition toordinal :: "date \<Rightarrow> int" where
  "toordinal dt = days_before_year (year dt) + days_before_month (year dt) (month dt) + int (day dt)"

text \<open>\<open>strftime("%d/%m/%Y")\<close>, the year on four digits.\<close>

definition digit_char :: "nat \<Rightarrow> char" where
  "digit_char n = char_of (48 + n mod 10)"

definition two_digits :: "nat \<Rightarrow> string" where
  "two_digits n = [digit_char (n div 10), digit_char n]"

definition strftime_dmy :: "date \<Rightarrow> string" where
  "strftime_dmy dt =
     two_digits (day dt) @ ''/'' @ two_digits (month dt) @ ''/''
     @ two_digits (year dt div 100) @ two_digits (year dt mod 100)"

section \<open>The date index and the closest date (app.py)\<close>

text \<open>\<open>available_dates = sorted(all_security_data.keys(), reverse=True)\<close>\<close>

definition available_dates :: "'v dict \<Rightarrow> string list" where
  "available_dates all_security_data = rev (sort (map fst all_security_data))"

text \<open>
  The key of the search: \<open>abs\<close> of the difference of the two parsed dates, a number of
  days.
\<close>

definition day_distance :: "string \<Rightarrow> string \<Rightarrow> error + int" where
  "day_distance selected_date d =
     (case strptime d of
        Inl e \<Rightarrow> Inl e
      | Inr a \<Rightarrow>
          (case strptime selected_date of
             Inl e \<Rightarrow> Inl e
           | Inr b \<Rightarrow> Inr \<bar>toordinal a - toordinal b\<bar>))"

text \<open>
  \<open>min(xs, key=f)\<close> of Python: the key of each item is computed once, in order, and an
  item replaces the best one only when its key is strictly smaller; an empty sequence is
  a \<open>ValueError\<close>.
\<close>

fun min_loop :: "('a \<Rightarrow> error + int) \<Rightarrow> 'a \<Rightarrow> int \<Rightarrow> 'a list \<Rightarrow> error + 'a" where
  "min_loop f best best_key [] = Inr best"
| "min_loop f best best_key (x # xs) =
     (case f x of
        Inl e \<Rightarrow> Inl e
      | Inr k \<Rightarrow> if k < best_key then min_loop f x k xs else min_loop f best best_key xs)"

fun py_min_key :: "('a \<Rightarrow> error + int) \<Rightarrow> 'a list \<Rightarrow> error + 'a" where
  "py_min_key f [] = Inl ValueError"
| "py_min_key f (x # xs) = (case f x of Inl e \<Rightarrow> Inl e | Inr k \<Rightarrow> min_loop f x k xs)"

definition closest_date :: "string list \<Rightarrow> string \<Rightarrow> error + string" where
  "closest_date dates selected_date = py_min_key (day_distance selected_date) dates"



text \<open>The day number of a text that parses as a date.\<close>

definition day_number :: "string \<Rightarrow> int" where
  "day_number s = (case strptime s of Inl e \<Rightarrow> 0 | Inr dt \<Rightarrow> toordinal dt)"

section \<open>The comparison between dates (\<open>comparison_data\<close> of app.py)\<close>

record comparison_row =
  cmp_date :: string
  cmp_region :: string
  cmp_niveau :: string

text \<open>\<open>d.get(k, {})\<close>\<close>

definition get_dict :: "'v dict dict \<Rightarrow> string \<Rightarrow> 'v dict" where
  "get_dict d k = (case map_of d k of None \<Rightarrow> [] | Some v \<Rightarrow> v)"

text \<open>\<open>datetime.strptime(d, "%Y-%m-%d").strftime("%d/%m/%Y")\<close>\<close>

definition display_date :: "string \<Rightarrow> error + string" where
  "display_date d = (case strptime d of Inl e \<Rightarrow> Inl e | Inr dt \<Rightarrow> Inr (strftime_dmy dt))"

text \<open>
  The loop over the selected regions for one date: a region that the data of the date
  does not hold adds nothing; the others add a row with their level.
\<close>

fun region_rows ::
  "string dict dict \<Rightarrow> string dict dict \<Rightarrow> string \<Rightarrow> string list
     \<Rightarrow> error + comparison_row list" where
  "region_rows risk_data data date_str [] = Inr []"
| "region_rows risk_data data date_str (region_name # rest) =
     (case map_of data region_name of
        None \<Rightarrow> region_rows risk_data data date_str rest
      | Some region_data \<Rightarrow>
          (case calculate_alert_level risk_data region_data region_name date_str of
             (level, icon, color) \<Rightarrow>
               (case display_date date_str of
                  Inl e \<Rightarrow> Inl e
                | Inr shown \<Rightarrow>
                    (case region_rows risk_data data date_str rest of
                       Inl e \<Rightarrow> Inl e
                     | Inr rows \<Rightarrow>
                         Inr (\<lparr>cmp_date = shown, cmp_region = region_name,
                               cmp_niveau = level\<rparr> # rows)))))"

text \<open>The loop over the comparison dates, in the order the selection gives them.\<close>

fun dates_rows ::
  "string dict dict \<Rightarrow> string dict dict dict \<Rightarrow> string list \<Rightarrow> string list
     \<Rightarrow> error + comparison_row list" where
  "dates_rows risk_data all_security_data selected_regions [] = Inr []"
| "dates_rows risk_data all_security_data selected_regions (comp_date # rest) =
     (case region_rows risk_data (get_dict all_security_data comp_date) comp_date
             selected_regions of
        Inl e \<Rightarrow> Inl e
      | Inr rows \<Rightarrow>
          (case dates_rows risk_data all_security_data selected_regions rest of
             Inl e \<Rightarrow> Inl e
           | Inr others \<Rightarrow> Inr (rows @ others)))"

text \<open>
  \<open>comparison_data\<close>: the rows of the selected date, whose data is
  \<open>security_data = all_security_data.get(selected_date, {})\<close>, then those of the
  comparison dates.
\<close>

definition comparison_data ::
  "string dict dict \<Rightarrow> string dict dict dict \<Rightarrow> string \<Rightarrow> string list \<Rightarrow> string list
     \<Rightarrow> error + comparison_row list" where
  "comparison_data risk_data all_security_data selected_date selected_regions comparison_dates =
     (case region_rows risk_data (get_dict all_security_data selected_date) selected_date
             selected_regions of
        Inl e \<Rightarrow> Inl e
      | Inr rows \<Rightarrow>
          (case dates_rows risk_data all_security_data selected_regions comparison_dates of
             Inl e \<Rightarrow> Inl e
           | Inr others \<Rightarrow> Inr (rows @ others)))"

text \<open>
  To state what the rows are: the date as a row shows it, and the rows that the regions
  with data for a date give, in the order of the selected regions.
\<close>

definition shown_date :: "string \<Rightarrow> string" where
  "shown_date d = (case display_date d of Inl e \<Rightarrow> [] | Inr s \<Rightarrow> s)"

definition present_rows ::
  "string dict dict \<Rightarrow> string dict dict dict \<Rightarrow> string list \<Rightarrow> string \<Rightarrow> comparison_row list" where
  "present_rows risk_data all_security_data selected_regions d =
     map (\<lambda>r. \<lparr>cmp_date = shown_date d, cmp_region = r,
                cmp_niveau = fst (calculate_alert_level risk_data
                                    (get_dict (get_dict all_security_data d) r) r d)\<rparr>)
       (filter (\<lambda>r. map_of (get_dict all_security_data d) r \<noteq> None) selected_regions)"


section \<open>The evolution of the risk (\<open>evo_df\<close> of app.py)\<close>

text \<open>
  The cell \<open>Date\<close> of a row: the parsed date, or the key itself when it does not parse
  (the \<open>except\<close> of the source).
\<close>

datatype date_cell = DateObj date | DateStr string

record evo_row =
  evo_date :: date_cell
  evo_region :: string
  evo_niveau :: string
  evo_score :: "nat option"

definition score_map :: "string \<Rightarrow> nat option" where
  "score_map level =
     (if level = faible then Some 1 else if level = moyen then Some 2
      else if level = eleve then Some 3 else None)"

definition target_regions :: "string list" where
  "target_regions = [''Far North'', ''Littoral'', ''Centre'', ''North'', ''West'']"

definition date_cell_of :: "string \<Rightarrow> date_cell" where
  "date_cell_of date_str = (case strptime date_str of Inl e \<Rightarrow> DateStr date_str | Inr dt \<Rightarrow> DateObj dt)"

definition regions_to_plot :: "string dict dict \<Rightarrow> string list \<Rightarrow> string list" where
  "regions_to_plot risk_data selected_regions =
     (let sorted_dates = sort (map fst risk_data);
          chosen = filter (\<lambda>r. r \<in> set selected_regions) target_regions
      in if chosen = [] then
           filter (\<lambda>r. \<exists>d \<in> set sorted_dates. map_of (get_dict risk_data d) r \<noteq> None)
             target_regions
         else chosen)"

text \<open>
  The rows, date after date in the sorted order of the keys; \<open>if level\<close> drops a region
  that has no label, or an empty one, on that date.
\<close>

definition evo_rows :: "string dict dict \<Rightarrow> string list \<Rightarrow> evo_row list" where
  "evo_rows risk_data selected_regions =
     concat (map (\<lambda>date_str.
        concat (map (\<lambda>region_name.
            (case map_of (get_dict risk_data date_str) region_name of
               None \<Rightarrow> []
             | Some level \<Rightarrow>
                 if level \<noteq> [] then
                   [\<lparr>evo_date = date_cell_of date_str, evo_region = region_name,
                     evo_niveau = level, evo_score = score_map level\<rparr>]
                 else []))
          (regions_to_plot risk_data selected_regions)))
       (sort (map fst risk_data)))"

text \<open>
  \<open>sort_values("Date")\<close>: ascending. Dates compare with dates and texts with texts; a
  column that mixes the two cannot be compared, a \<open>TypeError\<close>. The order pandas gives
  to rows of the same date is not fixed; the model keeps them as they come.
\<close>

fun is_date_obj :: "date_cell \<Rightarrow> bool" where
  "is_date_obj (DateObj dt) = True"
| "is_date_obj (DateStr s) = False"

fun cell_ordinal :: "date_cell \<Rightarrow> int" where
  "cell_ordinal (DateObj dt) = toordinal dt"
| "cell_ordinal (DateStr s) = 0"

fun cell_text :: "date_cell \<Rightarrow> string" where
  "cell_text (DateObj dt) = []"
| "cell_text (DateStr s) = s"

definition sort_values_date :: "evo_row list \<Rightarrow> error + evo_row list" where
  "sort_values_date rows =
     (if list_all (\<lambda>r. is_date_obj (evo_date r)) rows then
        Inr (sort_key (\<lambda>r. cell_ordinal (evo_date r)) rows)
      else if list_all (\<lambda>r. \<not> is_date_obj (evo_date r)) rows then
        Inr (sort_key (\<lambda>r. cell_text (evo_date r)) rows)
      else Inl TypeError)"

text \<open>\<open>evo_df\<close>, built when there are rows.\<close>

definition evo_df :: "string dict dict \<Rightarrow> string list \<Rightarrow> error + evo_row list" where
  "evo_df risk_data selected_regions = sort_values_date (evo_rows risk_data selected_regions)"

text \<open>The order of two cells of the column: by day for dates, by text for texts.\<close>

fun cell_le :: "date_cell \<Rightarrow> date_cell \<Rightarrow> bool" where
  "cell_le (DateObj a) (DateObj b) = (toordinal a \<le> toordinal b)"
| "cell_le (DateStr a) (DateStr b) = (a \<le> b)"
| "cell_le a b = False"

section \<open>Properties of the classifier\<close>

text \<open>The substring test finds exactly the texts that hold the pattern somewhere.\<close>

lemma occurs_in_iff: "occurs_in p s \<longleftrightarrow> (\<exists>a b. s = a @ p @ b)"
proof (induction s)
  case Nil
  then show ?case by auto
next
  case (Cons c cs)
  show ?case
  proof
    assume "occurs_in p (c # cs)"
    then consider "take (length p) (c # cs) = p" | "occurs_in p cs" by auto
    then show "\<exists>a b. c # cs = a @ p @ b"
    proof cases
      case 1
      then have "c # cs = [] @ p @ drop (length p) (c # cs)"
        by (metis append_Nil append_take_drop_id)
      then show ?thesis by blast
    next
      case 2
      then obtain a b where "cs = a @ p @ b" using Cons.IH by blast
      then have "c # cs = (c # a) @ p @ b" by simp
      then show ?thesis by blast
    qed
  next
    assume "\<exists>a b. c # cs = a @ p @ b"
    then obtain a b where ab: "c # cs = a @ p @ b" by blast
    show "occurs_in p (c # cs)"
    proof (cases a)
      case Nil
      then have "take (length p) (c # cs) = p" using ab by simp
      then show ?thesis by simp
    next
      case (Cons x a')
      then have "cs = a' @ p @ b" using ab by simp
      then have "occurs_in p cs" using Cons.IH by blast
      then show ?thesis by simp
    qed
  qed
qed

text \<open>The score is the sum of the three signals and lies between 0 and 8.\<close>

lemma heuristic_score_sum:
  "heuristic_score region_data =
     situation_score (lower (get_text region_data situation_generale))
     + activites_score (lower (get_text region_data activites_economiques))
     + couvre_feu_score (lower (get_text region_data couvre_feu_key))"
  by (simp add: heuristic_score_def Let_def)

lemma heuristic_score_range: "0 \<le> heuristic_score d \<and> heuristic_score d \<le> 8"
  by (simp add: heuristic_score_def Let_def situation_score_def activites_score_def
      couvre_feu_score_def)

text \<open>
  C1, as the source has it. The claim gives the ghost-town rule the priority when the
  situation text holds both a tense or looting pattern and "ghost town". The
  \<open>if\<close>/\<open>elif\<close> chain tests \<open>tendu\<close> and \<open>pillage\<close> first: such a text adds 3, and
  "ghost town" adds 4 only to a text that holds neither of them.
\<close>

theorem situation_tense_rule_first:
  "(occurs_in ''tendu'' s \<or> occurs_in ''pillage'' s \<longrightarrow> situation_score s = 3) \<and>
   (\<not> occurs_in ''tendu'' s \<and> \<not> occurs_in ''pillage'' s \<and> occurs_in ''ghost town'' s
      \<longrightarrow> situation_score s = 4)"
  by (simp add: situation_score_def)

theorem situation_tense_rule_first_witness:
  "occurs_in ''tendu'' ''situation tendue'' \<and> situation_score ''situation tendue'' = 3 \<and>
   \<not> occurs_in ''tendu'' ''ghost town'' \<and> \<not> occurs_in ''pillage'' ''ghost town'' \<and>
   occurs_in ''ghost town'' ''ghost town'' \<and> situation_score ''ghost town'' = 4"
proof -
  have a: "occurs_in ''tendu'' ''situation tendue''" by code_simp
  have b: "\<not> occurs_in ''tendu'' ''ghost town''" by code_simp
  have c: "\<not> occurs_in ''pillage'' ''ghost town''" by code_simp
  have d: "occurs_in ''ghost town'' ''ghost town''" by code_simp
  from situation_tense_rule_first [of "''situation tendue''"] a
  have e: "situation_score ''situation tendue'' = 3" by blast
  from situation_tense_rule_first [of "''ghost town''"] b c d
  have f: "situation_score ''ghost town'' = 4" by blast
  from a b c d e f show ?thesis by blast
qed

text \<open>
  C1 as stated fails: the situation "Ghost town, climat tendu" holds both patterns once
  lowered, and its signal is 3, not 4; an observation with this situation alone scores 3.
\<close>

theorem ghost_town_with_tense_scores_three:
  "occurs_in ''tendu'' (lower ''Ghost town, climat tendu'') \<and>
   occurs_in ''ghost town'' (lower ''Ghost town, climat tendu'') \<and>
   situation_score (lower ''Ghost town, climat tendu'') = 3 \<and>
   situation_score (lower ''Ghost town, climat tendu'') \<noteq> 4 \<and>
   heuristic_score [(situation_generale, ''Ghost town, climat tendu'')] = 3"
  by code_simp

text \<open>
  C2, as the source has it. For a non-empty date and a non-empty region name whose entry
  in the override table is one of the three labels, the level returned is that label,
  and the observation plays no part: any other observation gives the same result. The
  guard of the source skips the table when the date or the region name is the empty
  string.
\<close>

theorem override_dominates:
  assumes "date_str \<noteq> []" and "region_name \<noteq> []"
    and "map_of risk_data date_str = Some regions"
    and "map_of regions region_name = Some level_fr"
    and "level_fr = eleve \<or> level_fr = moyen \<or> level_fr = faible"
  shows "fst (calculate_alert_level risk_data region_data region_name date_str) = level_fr \<and>
         calculate_alert_level risk_data region_data region_name date_str =
         calculate_alert_level risk_data other_data region_name date_str"
  using assms
  by (auto simp add: calculate_alert_level_def override_entry_def alert_eleve_def
      alert_moyen_def alert_faible_def)

theorem override_dominates_witness:
  "''2025-01-10'' \<noteq> [] \<and> ''North'' \<noteq> [] \<and>
   map_of [(''2025-01-10'', [(''North'', faible)])] ''2025-01-10'' = Some [(''North'', faible)] \<and>
   map_of [(''North'', faible)] ''North'' = Some faible \<and>
   fst (calculate_alert_level [(''2025-01-10'', [(''North'', faible)])]
          [(situation_generale, ''Ghost town''), (activites_economiques, ferme),
           (couvre_feu_key, ''interdiction'')] ''North'' ''2025-01-10'') = faible"
proof -
  have a: "''2025-01-10'' \<noteq> []" and b: "''North'' \<noteq> []" by simp_all
  have c: "map_of [(''2025-01-10'', [(''North'', faible)])] ''2025-01-10''
             = Some [(''North'', faible)]" by simp
  have d: "map_of [(''North'', faible)] ''North'' = Some faible" by simp
  have e: "faible = eleve \<or> faible = moyen \<or> faible = faible" by simp
  from override_dominates [OF a b c d e] a b c d show ?thesis by blast
qed

text \<open>
  C2 as stated fails at the empty region name: the table gives "Faible" for the key
  ("2025-01-10", ""), and the observation is classified by its score of 8 as the
  highest level.
\<close>

theorem empty_region_name_skips_override:
  "map_of [(''2025-01-10'', [([] :: string, faible)])] ''2025-01-10'' = Some [('''', faible)] \<and>
   map_of [('''', faible)] ([] :: string) = Some faible \<and>
   calculate_alert_level [(''2025-01-10'', [('''', faible)])]
     [(situation_generale, ''Ghost town''), (activites_economiques, ferme),
      (couvre_feu_key, ''interdiction'')] '''' ''2025-01-10'' = alert_eleve \<and>
   fst alert_eleve \<noteq> faible"
  by code_simp



text \<open>The four boundary scores are reached: 1 and 2, 4 and 5.\<close>

lemma score_boundaries_reached:
  "heuristic_score [] = 1 \<and> calculate_alert_level [] [] [] [] = alert_faible \<and>
   heuristic_score [(activites_economiques, ''vide''), (situation_generale, ''RAS'')] = 2 \<and>
   calculate_alert_level [] [(activites_economiques, ''vide''), (situation_generale, ''RAS'')]
     [] [] = alert_moyen"
  by code_simp

text \<open>The classifier returns one of the three levels on every input.\<close>

lemma calculate_alert_level_total:
  "calculate_alert_level risk_data region_data region_name date_str
     \<in> {alert_eleve, alert_moyen, alert_faible}"
  by (simp add: calculate_alert_level_def level_of_score_def split: option.split)

text \<open>
  C9. An entry of the override table whose label is none of the three is passed over
  without an error: the result is the one the classifier gives with no table at all.
\<close>

theorem unknown_label_falls_through:
  assumes "map_of risk_data date_str = Some regions"
    and "map_of regions region_name = Some level_fr"
    and "level_fr \<noteq> eleve" and "level_fr \<noteq> moyen" and "level_fr \<noteq> faible"
  shows "calculate_alert_level risk_data region_data region_name date_str =
         calculate_alert_level [] region_data region_name date_str \<and>
         calculate_alert_level risk_data region_data region_name date_str =
         level_of_score (heuristic_score region_data)"
  using assms by (simp add: calculate_alert_level_def override_entry_def)

theorem unknown_label_falls_through_witness:
  "map_of [(''2025-01-10'', [(''North'', ''Critique'')])] ''2025-01-10''
     = Some [(''North'', ''Critique'')] \<and>
   map_of [(''North'', ''Critique'')] ''North'' = Some ''Critique'' \<and>
   ''Critique'' \<noteq> eleve \<and> ''Critique'' \<noteq> moyen \<and> ''Critique'' \<noteq> faible \<and>
   calculate_alert_level [(''2025-01-10'', [(''North'', ''Critique'')])]
     [(situation_generale, ''Ghost town'')] ''North'' ''2025-01-10'' =
   calculate_alert_level [] [(situation_generale, ''Ghost town'')] ''North'' ''2025-01-10''"
proof -
  have a: "map_of [(''2025-01-10'', [(''North'', ''Critique'')])] ''2025-01-10''
             = Some [(''North'', ''Critique'')]" by simp
  have b: "map_of [(''North'', ''Critique'')] ''North'' = Some ''Critique''" by simp
  have c: "''Critique'' \<noteq> eleve" by (simp add: eleve_def)
  have d: "''Critique'' \<noteq> moyen" by (simp add: moyen_def)
  have e: "''Critique'' \<noteq> faible" by (simp add: faible_def)
  from unknown_label_falls_through [OF a b c d e] a b c d e show ?thesis by blast
qed

section \<open>Properties of the row filter\<close>

text \<open>
  C5, as the source has it. The filter keeps exactly the rows whose region is among the
  selected regions and whose level has its box checked; with the three boxes checked
  (their default) every level passes. The region test is \<open>isin\<close>: an empty selection
  keeps no row.
\<close>

theorem row_filter_keeps:
  "filtered_df df_stats selected_regions show_high show_medium show_low =
     filter (\<lambda>r. row_region r \<in> set selected_regions
                 \<and> (row_niveau r = eleve \<longrightarrow> show_high)
                 \<and> (row_niveau r = moyen \<longrightarrow> show_medium)
                 \<and> (row_niveau r = faible \<longrightarrow> show_low)) df_stats \<and>
   filtered_df df_stats selected_regions True True True =
     filter (\<lambda>r. row_region r \<in> set selected_regions) df_stats \<and>
   filtered_df df_stats [] show_high show_medium show_low = []"
  by (auto simp add: filtered_df_def Let_def intro: filter_cong)

theorem row_filter_keeps_witness:
  "filtered_df
     (create_statistics_dataframe []
        [(''North'', [(situation_generale, ''Ghost town'')]), (''West'', [])] ''2025-01-10'')
     [''North'', ''West''] True False True
   = create_statistics_dataframe [] [(''West'', [])] ''2025-01-10''"
proof -
  have rows: "create_statistics_dataframe []
        [(''North'', [(situation_generale, ''Ghost town'')]), (''West'', [])] ''2025-01-10''
      = [\<lparr>row_region = ''North'', row_niveau = moyen, row_icone = YellowCircle,
           row_situation = ''Ghost town'', row_activites = ''N/A'', row_circulation = ''N/A'',
           row_couvre_feu = ''N/A''\<rparr>,
         \<lparr>row_region = ''West'', row_niveau = faible, row_icone = GreenCircle,
           row_situation = ''N/A'', row_activites = ''N/A'', row_circulation = ''N/A'',
           row_couvre_feu = ''N/A''\<rparr>]"
    by code_simp
  have west: "create_statistics_dataframe [] [(''West'', [])] ''2025-01-10''
      = [\<lparr>row_region = ''West'', row_niveau = faible, row_icone = GreenCircle,
           row_situation = ''N/A'', row_activites = ''N/A'', row_circulation = ''N/A'',
           row_couvre_feu = ''N/A''\<rparr>]"
    by code_simp
  show ?thesis
    unfolding rows west
    using row_filter_keeps [of _ "[''North'', ''West'']" True False True]
    by (simp add: eleve_def moyen_def faible_def)
qed

text \<open>
  C5 as stated fails: with no region selected and the three boxes checked, the single
  row of the table is dropped.
\<close>

theorem empty_region_selection_keeps_nothing:
  "filtered_df (create_statistics_dataframe [] [(''North'', [])] ''2025-01-10'') []
     True True True = [] \<and>
   length (create_statistics_dataframe [] [(''North'', [])] ''2025-01-10'') = 1"
  by code_simp

section \<open>Properties of the loader\<close>

text \<open>
  C6, as the source has it. The one handler of the loader is for a missing file, which
  gives the empty dataset. A file that is not JSON makes \<open>json.load\<close> raise, and nothing
  catches that: the decode error leaves the loader.
\<close>

theorem loader_missing_and_malformed:
  "load_security_data_by_date FileNotFound today = Inr [] \<and>
   load_security_data_by_date Malformed today = Inl JSONDecodeError"
  by (simp add: load_security_data_by_date_def load_security_body_def read_json_def)

text \<open>
  C6 as stated fails: on a malformed source the loader does not return the empty dataset
  it returns for a missing file.
\<close>

theorem malformed_source_raises:
  "load_security_data_by_date Malformed ''2025-01-10'' = Inl JSONDecodeError \<and>
   load_security_data_by_date Malformed ''2025-01-10'' \<noteq> Inr [] \<and>
   load_security_data_by_date FileNotFound ''2025-01-10'' = Inr []"
  by (simp add: load_security_data_by_date_def load_security_body_def read_json_def)

text \<open>
  C8. On a parsed mapping the loader looks at the first key: ten characters with hyphens
  at positions 4 and 7 and the mapping is returned as it is, date-keyed; otherwise (also
  when the mapping is empty) the whole mapping becomes the one snapshot of today's date.
\<close>

theorem loader_format_detection:
  "(kvs \<noteq> [] \<and> length (fst (hd kvs)) = 10 \<and> fst (hd kvs) ! 4 = CHR ''-''
      \<and> fst (hd kvs) ! 7 = CHR ''-'' \<longrightarrow>
      load_security_data_by_date (Parsed (JObj kvs)) today = Inr kvs) \<and>
   (\<not> (kvs \<noteq> [] \<and> length (fst (hd kvs)) = 10 \<and> fst (hd kvs) ! 4 = CHR ''-''
         \<and> fst (hd kvs) ! 7 = CHR ''-'') \<longrightarrow>
      load_security_data_by_date (Parsed (JObj kvs)) today = Inr [(today, JObj kvs)])"
  by (cases kvs)
     (auto simp add: load_security_data_by_date_def load_security_body_def read_json_def
        looks_like_date_def split: prod.splits)

theorem loader_format_detection_witness:
  "load_security_data_by_date
     (Parsed (JObj [(''2025-01-10'', JObj [(''North'', JObj [])]), (''North'', JNull)]))
     ''2025-01-12''
   = Inr [(''2025-01-10'', JObj [(''North'', JObj [])]), (''North'', JNull)] \<and>
   load_security_data_by_date
     (Parsed (JObj [(''North'', JObj []), (''2025-01-10'', JObj [])])) ''2025-01-12''
   = Inr [(''2025-01-12'', JObj [(''North'', JObj []), (''2025-01-10'', JObj [])])] \<and>
   load_security_data_by_date (Parsed (JObj [])) ''2025-01-12''
   = Inr [(''2025-01-12'', JObj [])]"
  using loader_format_detection
          [of "[(''2025-01-10'', JObj [(''North'', JObj [])]), (''North'', JNull)]" "''2025-01-12''"]
        loader_format_detection
          [of "[(''North'', JObj []), (''2025-01-10'', JObj [])]" "''2025-01-12''"]
        loader_format_detection [of "[]" "''2025-01-12''"]
  by simp

section \<open>Properties of the banking normalization\<close>

lemma is_space_not_upper: "is_space c \<Longrightarrow> \<not> is_upper c"
  by (auto simp add: is_space_def is_upper_def Let_def)

text \<open>Stripping removes a padding of white space and nothing of what it surrounds.\<close>

lemma strip_padded:
  assumes "\<forall>c \<in> set ws1. is_space c" and "\<forall>c \<in> set ws2. is_space c"
    and "v \<noteq> []" and "\<not> is_space (hd v)" and "\<not> is_space (last v)"
  shows "strip (ws1 @ v @ ws2) = v"
proof -
  have a: "dropWhile is_space (ws1 @ v @ ws2) = v @ ws2"
    using assms(1,3,4) by (cases v) (simp_all add: dropWhile_append3)
  have b: "dropWhile is_space (rev (v @ ws2)) = rev v"
  proof -
    have "rev (v @ ws2) = rev ws2 @ rev v" by simp
    moreover have "\<forall>c \<in> set (rev ws2). is_space c" using assms(2) by simp
    moreover have "rev v \<noteq> []" "\<not> is_space (hd (rev v))"
      using assms(3,5) by (simp_all add: hd_rev)
    ultimately show ?thesis
      by (cases "rev v") (simp_all add: dropWhile_append3)
  qed
  show ?thesis by (simp add: strip_def a b del: rev_append)
qed

text \<open>A text whose lowered form neither starts nor ends with white space does not either.\<close>

lemma lower_eq_ends:
  assumes "lower v = w" and "w \<noteq> []" and "\<not> is_space (hd w)" and "\<not> is_space (last w)"
  shows "v \<noteq> [] \<and> \<not> is_space (hd v) \<and> \<not> is_space (last v)"
proof -
  have ne: "v \<noteq> []" using assms(1,2) by (auto simp add: lower_def)
  have h: "hd w = lower_char (hd v)" using assms(1) ne by (auto simp add: lower_def hd_map)
  have l: "last w = lower_char (last v)" using assms(1) ne by (auto simp add: lower_def last_map)
  have sp: "\<And>c. is_space c \<Longrightarrow> lower_char c = c"
    using is_space_not_upper by (simp add: lower_char_def)
  show ?thesis using ne h l sp assms(3,4) by metis
qed

text \<open>
  C10. Whatever white space surrounds it and whatever the case of its letters, a cell
  that reads "oui" becomes "Oui" and one that reads "non" becomes "Non"; and a cell
  never becomes anything but "Oui", "Non" or missing.
\<close>

theorem ouvert_folds_case_and_space:
  assumes "\<forall>c \<in> set ws1. is_space c" and "\<forall>c \<in> set ws2. is_space c"
  shows "(lower v = ''oui'' \<longrightarrow> normalize_ouvert (Some (ws1 @ v @ ws2)) = Some ''Oui'') \<and>
         (lower v = ''non'' \<longrightarrow> normalize_ouvert (Some (ws1 @ v @ ws2)) = Some ''Non'') \<and>
         normalize_ouvert cell \<in> {Some ''Oui'', Some ''Non'', None}"
proof (intro conjI impI)
  assume h: "lower v = ''oui''"
  have "v \<noteq> [] \<and> \<not> is_space (hd v) \<and> \<not> is_space (last v)"
    by (rule lower_eq_ends [OF h]) (simp_all add: is_space_def)
  then have "strip (ws1 @ v @ ws2) = v" using strip_padded assms by blast
  then show "normalize_ouvert (Some (ws1 @ v @ ws2)) = Some ''Oui''"
    using h by (simp add: normalize_ouvert_def ouvert_map_def)
next
  assume h: "lower v = ''non''"
  have "v \<noteq> [] \<and> \<not> is_space (hd v) \<and> \<not> is_space (last v)"
    by (rule lower_eq_ends [OF h]) (simp_all add: is_space_def)
  then have "strip (ws1 @ v @ ws2) = v" using strip_padded assms by blast
  then show "normalize_ouvert (Some (ws1 @ v @ ws2)) = Some ''Non''"
    using h by (simp add: normalize_ouvert_def ouvert_map_def)
next
  show "normalize_ouvert cell \<in> {Some ''Oui'', Some ''Non'', None}"
    by (simp add: normalize_ouvert_def ouvert_map_def split: option.split)
qed

theorem ouvert_folds_case_and_space_witness:
  "is_space (CHR 0x09) \<and> is_space CHR '' '' \<and> is_space (CHR 0xA0) \<and> is_space (CHR 0x0A) \<and>
   lower ''OuI'' = ''oui'' \<and> lower ''NON'' = ''non'' \<and>
   normalize_ouvert (Some ([CHR 0x09, CHR '' ''] @ ''OuI'' @ [CHR 0xA0, CHR 0x0A])) = Some ''Oui'' \<and>
   normalize_ouvert (Some ([CHR 0x09, CHR '' ''] @ ''NON'' @ [CHR 0xA0, CHR 0x0A])) = Some ''Non''"
proof -
  have s: "is_space (CHR 0x09)" "is_space CHR '' ''" "is_space (CHR 0xA0)" "is_space (CHR 0x0A)"
    by (simp_all add: is_space_def)
  have w1: "\<forall>c \<in> set [CHR 0x09, CHR '' '']. is_space c" using s by simp
  have w2: "\<forall>c \<in> set [CHR 0xA0, CHR 0x0A]. is_space c" using s by simp
  have oui: "lower ''OuI'' = ''oui''" by code_simp
  have non: "lower ''NON'' = ''non''" by code_simp
  from ouvert_folds_case_and_space [OF w1 w2, of "''OuI''"] oui
  have a: "normalize_ouvert (Some ([CHR 0x09, CHR '' ''] @ ''OuI'' @ [CHR 0xA0, CHR 0x0A]))
             = Some ''Oui''" by blast
  from ouvert_folds_case_and_space [OF w1 w2, of "''NON''"] non
  have b: "normalize_ouvert (Some ([CHR 0x09, CHR '' ''] @ ''NON'' @ [CHR 0xA0, CHR 0x0A]))
             = Some ''Non''" by blast
  from s oui non a b show ?thesis by blast
qed

section \<open>Properties of the calendar\<close>
























section \<open>Properties of the closest date\<close>











text \<open>The scenario of the specification: with 10 and 9 January, 11 January gives 10 January.\<close>

lemma closest_date_scenario:
  "closest_date (available_dates [(''2025-01-10'', JObj []), (''2025-01-09'', JObj [])])
     ''2025-01-11'' = Inr ''2025-01-10''"
  by code_simp

section \<open>Properties of the two series\<close>

text \<open>
  The rows of the comparison are those of the regions that have data, date after date
  in the order given.
\<close>

lemma region_rows_present:
  assumes "region_rows risk_data data d regions = Inr rows"
  shows "rows = map (\<lambda>r. \<lparr>cmp_date = shown_date d, cmp_region = r,
                cmp_niveau = fst (calculate_alert_level risk_data (get_dict data r) r d)\<rparr>)
       (filter (\<lambda>r. map_of data r \<noteq> None) regions)"
  using assms
proof (induction regions arbitrary: rows)
  case Nil
  then show ?case by simp
next
  case (Cons r rest)
  show ?case
  proof (cases "map_of data r")
    case None
    then show ?thesis using Cons by simp
  next
    case (Some obs)
    obtain level icon color where lv: "calculate_alert_level risk_data obs r d = (level, icon, color)"
      by (cases "calculate_alert_level risk_data obs r d") auto
    from Cons.prems Some lv obtain s rows' where
      s: "display_date d = Inr s" and rest: "region_rows risk_data data d rest = Inr rows'"
      and rows: "rows = \<lparr>cmp_date = s, cmp_region = r, cmp_niveau = level\<rparr> # rows'"
      by (auto split: sum.splits)
    have "get_dict data r = obs" using Some by (simp add: get_dict_def)
    then show ?thesis
      using Cons.IH [OF rest] Some lv s rows by (simp add: shown_date_def)
  qed
qed

lemma dates_rows_present:
  assumes "dates_rows risk_data all_security_data selected_regions dates = Inr rows"
  shows "rows = concat (map (present_rows risk_data all_security_data selected_regions) dates)"
  using assms
proof (induction dates arbitrary: rows)
  case Nil
  then show ?case by simp
next
  case (Cons d rest)
  from Cons.prems obtain r1 r2 where
    a: "region_rows risk_data (get_dict all_security_data d) d selected_regions = Inr r1"
    and b: "dates_rows risk_data all_security_data selected_regions rest = Inr r2"
    and c: "rows = r1 @ r2"
    by (auto split: sum.splits)
  show ?case
    using region_rows_present [OF a] Cons.IH [OF b] c by (simp add: present_rows_def)
qed

lemma comparison_data_present:
  assumes "comparison_data risk_data all_security_data selected_date selected_regions
             comparison_dates = Inr rows"
  shows "rows = concat (map (present_rows risk_data all_security_data selected_regions)
                          (selected_date # comparison_dates))"
proof -
  from assms obtain r1 r2 where
    a: "region_rows risk_data (get_dict all_security_data selected_date) selected_date
          selected_regions = Inr r1"
    and b: "dates_rows risk_data all_security_data selected_regions comparison_dates = Inr r2"
    and c: "rows = r1 @ r2"
    by (auto simp add: comparison_data_def split: sum.splits)
  show ?thesis
    using region_rows_present [OF a] dates_rows_present [OF b] c by (simp add: present_rows_def)
qed

text \<open>
  Sorting by the column \<open>Date\<close> leaves the rows in ascending order of that column and
  keeps the same rows.
\<close>

lemma cell_le_ordinal:
  "is_date_obj a \<Longrightarrow> is_date_obj b \<Longrightarrow> cell_le a b = (cell_ordinal a \<le> cell_ordinal b)"
  by (cases a; cases b) simp_all

lemma cell_le_text:
  "\<not> is_date_obj a \<Longrightarrow> \<not> is_date_obj b \<Longrightarrow> cell_le a b = (cell_text a \<le> cell_text b)"
  by (cases a; cases b) simp_all

lemma sort_values_date_sorted:
  assumes "sort_values_date rows = Inr sorted_rows"
  shows "sorted_wrt cell_le (map evo_date sorted_rows) \<and> set sorted_rows = set rows \<and> length sorted_rows = length rows"
proof (cases "list_all (\<lambda>r. is_date_obj (evo_date r)) rows")
  case True
  then have s: "sorted_rows = sort_key (\<lambda>r. cell_ordinal (evo_date r)) rows"
    using assms by (simp add: sort_values_date_def)
  have all: "\<forall>r \<in> set sorted_rows. is_date_obj (evo_date r)"
    using True s by (simp add: list_all_iff)
  have "sorted (map (\<lambda>r. cell_ordinal (evo_date r)) sorted_rows)"
    unfolding s by (rule sorted_sort_key)
  then have "sorted_wrt (\<lambda>a b. cell_ordinal (evo_date a) \<le> cell_ordinal (evo_date b)) sorted_rows"
    by (simp add: sorted_wrt_map)
  then have "sorted_wrt (\<lambda>a b. cell_le (evo_date a) (evo_date b)) sorted_rows"
    using all by (auto simp add: cell_le_ordinal elim: sorted_wrt_mono_rel [rotated])
  then show ?thesis using s by (simp add: sorted_wrt_map)
next
  case False
  then have t: "list_all (\<lambda>r. \<not> is_date_obj (evo_date r)) rows"
    and s: "sorted_rows = sort_key (\<lambda>r. cell_text (evo_date r)) rows"
    using assms by (simp_all add: sort_values_date_def split: if_splits)
  have all: "\<forall>r \<in> set sorted_rows. \<not> is_date_obj (evo_date r)"
    using t s by (simp add: list_all_iff)
  have "sorted (map (\<lambda>r. cell_text (evo_date r)) sorted_rows)"
    unfolding s by (rule sorted_sort_key)
  then have "sorted_wrt (\<lambda>a b. cell_text (evo_date a) \<le> cell_text (evo_date b)) sorted_rows"
    by (simp add: sorted_wrt_map)
  then have "sorted_wrt (\<lambda>a b. cell_le (evo_date a) (evo_date b)) sorted_rows"
    using all by (auto simp add: cell_le_text elim: sorted_wrt_mono_rel [rotated])
  then show ?thesis using s by (simp add: sorted_wrt_map)
qed

lemma evo_rows_member:
  assumes "r \<in> set (evo_rows risk_data selected_regions)"
  shows "evo_niveau r \<noteq> [] \<and>
         (\<exists>d \<in> set (map fst risk_data). evo_date r = date_cell_of d \<and>
            map_of (get_dict risk_data d) (evo_region r) = Some (evo_niveau r))"
proof -
  from assms obtain d region_name level where
    d: "d \<in> set (map fst risk_data)"
    and l: "map_of (get_dict risk_data d) region_name = Some level" "level \<noteq> []"
    and r: "r = \<lparr>evo_date = date_cell_of d, evo_region = region_name,
                  evo_niveau = level, evo_score = score_map level\<rparr>"
    by (auto simp add: evo_rows_def split: option.splits if_splits)
       (metis fst_conv image_eqI)
  then show ?thesis by auto
qed

lemma evo_rows_parsed:
  assumes "\<forall>d \<in> set (map fst risk_data). \<exists>dt. strptime d = Inr dt"
  shows "list_all (\<lambda>r. is_date_obj (evo_date r)) (evo_rows risk_data selected_regions)"
proof -
  have "\<forall>r \<in> set (evo_rows risk_data selected_regions). is_date_obj (evo_date r)"
  proof
    fix r assume "r \<in> set (evo_rows risk_data selected_regions)"
    then obtain d where d: "d \<in> set (map fst risk_data)" "evo_date r = date_cell_of d"
      using evo_rows_member by blast
    then obtain dt where "strptime d = Inr dt" using assms by blast
    then show "is_date_obj (evo_date r)" using d(2) by (simp add: date_cell_of_def)
  qed
  then show ?thesis by (simp add: list_all_iff)
qed

lemma evo_df_returns:
  assumes "\<forall>d \<in> set (map fst risk_data). \<exists>dt. strptime d = Inr dt"
  shows "\<exists>rows. evo_df risk_data selected_regions = Inr rows"
  using evo_rows_parsed [OF assms] by (simp add: evo_df_def sort_values_date_def)

lemma present_rows_level:
  assumes "r \<in> set (present_rows risk_data all_security_data selected_regions d)"
  shows "cmp_niveau r = eleve \<or> cmp_niveau r = moyen \<or> cmp_niveau r = faible"
proof -
  from assms obtain region_name where
    "cmp_niveau r = fst (calculate_alert_level risk_data
                           (get_dict (get_dict all_security_data d) region_name) region_name d)"
    by (auto simp add: present_rows_def)
  then show ?thesis
    using calculate_alert_level_total
            [of risk_data "get_dict (get_dict all_security_data d) region_name" region_name d]
    by (auto simp add: alert_eleve_def alert_moyen_def alert_faible_def)
qed


text \<open>
  C7, as the source has it. The evolution series \<open>evo_df\<close> is sorted by ascending date
  whatever the order of the keys of the override table, it exists whenever every key
  parses as a date, and each of its rows carries the non-empty label the table gives the
  region on that date. The comparison series \<open>comparison_data\<close> is not sorted: its rows
  are those of the selected date, then those of each comparison date in the order the
  selection gives them, and each carries one of the three levels. In both series a region
  without data for a date has no row for that date.
\<close>

theorem series_order_and_absence:
  "(comparison_data risk_data all_security_data selected_date selected_regions comparison_dates
      = Inr rows \<longrightarrow>
      rows = concat (map (present_rows risk_data all_security_data selected_regions)
                       (selected_date # comparison_dates)) \<and>
      (\<forall>r \<in> set rows. cmp_niveau r = eleve \<or> cmp_niveau r = moyen \<or> cmp_niveau r = faible)) \<and>
   (evo_df risk_data selected_regions = Inr evo \<longrightarrow>
      sorted_wrt cell_le (map evo_date evo) \<and>
      (\<forall>r \<in> set evo. evo_niveau r \<noteq> [] \<and>
         (\<exists>d \<in> set (map fst risk_data). evo_date r = date_cell_of d \<and>
            map_of (get_dict risk_data d) (evo_region r) = Some (evo_niveau r)))) \<and>
   ((\<forall>d \<in> set (map fst risk_data). \<exists>dt. strptime d = Inr dt) \<longrightarrow>
      (\<exists>sorted_rows. evo_df risk_data selected_regions = Inr sorted_rows))"
proof (intro conjI impI)
  assume a: "comparison_data risk_data all_security_data selected_date selected_regions
               comparison_dates = Inr rows"
  show c: "rows = concat (map (present_rows risk_data all_security_data selected_regions)
                       (selected_date # comparison_dates))"
    by (rule comparison_data_present [OF a])
  show "\<forall>r \<in> set rows. cmp_niveau r = eleve \<or> cmp_niveau r = moyen \<or> cmp_niveau r = faible"
  proof
    fix r assume "r \<in> set rows"
    then obtain d where "r \<in> set (present_rows risk_data all_security_data selected_regions d)"
      unfolding c by auto
    then show "cmp_niveau r = eleve \<or> cmp_niveau r = moyen \<or> cmp_niveau r = faible"
      by (rule present_rows_level)
  qed
next
  assume e: "evo_df risk_data selected_regions = Inr evo"
  then have s: "sort_values_date (evo_rows risk_data selected_regions) = Inr evo"
    by (simp add: evo_df_def)
  show "sorted_wrt cell_le (map evo_date evo)"
    using sort_values_date_sorted [OF s] by blast
  have "set evo = set (evo_rows risk_data selected_regions)"
    using sort_values_date_sorted [OF s] by blast
  then show "\<forall>r \<in> set evo. evo_niveau r \<noteq> [] \<and>
         (\<exists>d \<in> set (map fst risk_data). evo_date r = date_cell_of d \<and>
            map_of (get_dict risk_data d) (evo_region r) = Some (evo_niveau r))"
    using evo_rows_member by blast
next
  assume "\<forall>d \<in> set (map fst risk_data). \<exists>dt. strptime d = Inr dt"
  then show "\<exists>sorted_rows. evo_df risk_data selected_regions = Inr sorted_rows"
    by (rule evo_df_returns)
qed

theorem series_order_and_absence_witness:
  "evo_df [(''2025-01-12'', [(''North'', eleve)]), (''2025-01-10'', [(''North'', faible), (''West'', '''')])] [''North'', ''West'']
     = Inr [\<lparr>evo_date = DateObj (Date 2025 1 10), evo_region = ''North'', evo_niveau = faible,
          evo_score = Some 1\<rparr>,
        \<lparr>evo_date = DateObj (Date 2025 1 12), evo_region = ''North'', evo_niveau = eleve,
          evo_score = Some 3\<rparr>] \<and>
   sorted_wrt cell_le (map evo_date [\<lparr>evo_date = DateObj (Date 2025 1 10), evo_region = ''North'', evo_niveau = faible,
          evo_score = Some 1\<rparr>,
        \<lparr>evo_date = DateObj (Date 2025 1 12), evo_region = ''North'', evo_niveau = eleve,
          evo_score = Some 3\<rparr>]) \<and>
   comparison_data [(''2025-01-12'', [(''North'', eleve)]), (''2025-01-10'', [(''North'', faible), (''West'', '''')])]
     [(''2025-01-10'', [(''North'', [(situation_generale, ''Ghost town'')])]),
      (''2025-01-12'', [(''North'', []), (''West'', [])])]
     ''2025-01-12'' [''North'', ''West''] [''2025-01-10'']
     = Inr [\<lparr>cmp_date = ''12/01/2025'', cmp_region = ''North'', cmp_niveau = eleve\<rparr>,
        \<lparr>cmp_date = ''12/01/2025'', cmp_region = ''West'', cmp_niveau = faible\<rparr>,
        \<lparr>cmp_date = ''10/01/2025'', cmp_region = ''North'', cmp_niveau = faible\<rparr>] \<and>
   [\<lparr>cmp_date = ''12/01/2025'', cmp_region = ''North'', cmp_niveau = eleve\<rparr>,
        \<lparr>cmp_date = ''12/01/2025'', cmp_region = ''West'', cmp_niveau = faible\<rparr>,
        \<lparr>cmp_date = ''10/01/2025'', cmp_region = ''North'', cmp_niveau = faible\<rparr>]
     = concat (map (present_rows [(''2025-01-12'', [(''North'', eleve)]), (''2025-01-10'', [(''North'', faible), (''West'', '''')])]
                      [(''2025-01-10'', [(''North'', [(situation_generale, ''Ghost town'')])]),
      (''2025-01-12'', [(''North'', []), (''West'', [])])]
                      [''North'', ''West''])
                 [''2025-01-12'', ''2025-01-10''])"
proof -
  let ?rd = "[(''2025-01-12'', [(''North'', eleve)]), (''2025-01-10'', [(''North'', faible), (''West'', '''')])]"
  let ?asd = "[(''2025-01-10'', [(''North'', [(situation_generale, ''Ghost town'')])]),
      (''2025-01-12'', [(''North'', []), (''West'', [])])]"
  let ?evo = "[\<lparr>evo_date = DateObj (Date 2025 1 10), evo_region = ''North'', evo_niveau = faible,
          evo_score = Some 1\<rparr>,
        \<lparr>evo_date = DateObj (Date 2025 1 12), evo_region = ''North'', evo_niveau = eleve,
          evo_score = Some 3\<rparr>]"
  let ?rows = "[\<lparr>cmp_date = ''12/01/2025'', cmp_region = ''North'', cmp_niveau = eleve\<rparr>,
        \<lparr>cmp_date = ''12/01/2025'', cmp_region = ''West'', cmp_niveau = faible\<rparr>,
        \<lparr>cmp_date = ''10/01/2025'', cmp_region = ''North'', cmp_niveau = faible\<rparr>]"
  have e: "evo_df ?rd [''North'', ''West''] = Inr ?evo" by code_simp
  have c: "comparison_data ?rd ?asd ''2025-01-12'' [''North'', ''West''] [''2025-01-10''] = Inr ?rows"
    by code_simp
  from series_order_and_absence
         [of ?rd ?asd "''2025-01-12''" "[''North'', ''West'']" "[''2025-01-10'']" ?rows ?evo] e c
  have "sorted_wrt cell_le (map evo_date ?evo)"
    and "?rows = concat (map (present_rows ?rd ?asd [''North'', ''West'']) [''2025-01-12'', ''2025-01-10''])"
    by blast+
  then show ?thesis using e c by blast
qed

text \<open>
  C7 as stated fails on the comparison series: with 10 January selected and 9 January
  chosen for comparison, the row of 10 January comes before the row of 9 January.
\<close>

theorem comparison_rows_follow_selection_order:
  "comparison_data []
     [(''2025-01-10'', [(''North'', [(situation_generale, ''Ghost town'')])]),
      (''2025-01-09'', [(''North'', [(situation_generale, ''RAS'')])])]
     ''2025-01-10'' [''North''] [''2025-01-09'']
   = Inr [\<lparr>cmp_date = ''10/01/2025'', cmp_region = ''North'', cmp_niveau = moyen\<rparr>,
          \<lparr>cmp_date = ''09/01/2025'', cmp_region = ''North'', cmp_niveau = faible\<rparr>] \<and>
   day_number ''2025-01-09'' < day_number ''2025-01-10''"
  by code_simp

end
